theory Spec2Isabelle
  imports Main "HOL-Library.Word"
begin

section \<open>Background removal over ZIP archives: the request handler of main.py\<close>

text \<open>
  The development embeds \<^verbatim>\<open>remove_bg_zip\<close> of \<^verbatim>\<open>src/main.py\<close>, the handler of
  \<^verbatim>\<open>POST /remove-bg-zip/\<close>. Python exceptions are values of a sum type, the archive
  under construction and the counter \<^verbatim>\<open>processed_files\<close> are a state record passed
  through the loop, and the third-party operations the handler calls (the ZIP reader
  and writer, the image decoder, \<^verbatim>\<open>rembg.remove\<close>, the PNG encoder) are fields of an
  environment record: each returns a value or raises.
\<close>

subsection \<open>Strings and paths of the Python standard library\<close>

text \<open>
  \<^verbatim>\<open>str.lower\<close> is modelled on the ASCII letters: the suffixes the handler compares
  against are ASCII, and no other character lower-cases to one of their letters.
\<close>

type_synonym bytes = "8 word list"

definition lower_char :: "char \<Rightarrow> char" where
  "lower_char c =
     (case map_of (zip ''ABCDEFGHIJKLMNOPQRSTUVWXYZ'' ''abcdefghijklmnopqrstuvwxyz'') c of
        Some l \<Rightarrow> l
      | None \<Rightarrow> c)"

definition lower :: "string \<Rightarrow> string" where
  "lower s = map lower_char s"

definition endswith :: "string \<Rightarrow> string \<Rightarrow> bool" where
  "endswith s suffix =
     (length suffix \<le> length s \<and> drop (length s - length suffix) s = suffix)"

text \<open>\<^verbatim>\<open>str.rfind\<close>: the highest index of a character, or -1.\<close>

primrec last_index :: "char \<Rightarrow> string \<Rightarrow> nat option" where
  "last_index c [] = None"
| "last_index c (x # xs) =
     (case last_index c xs of
        Some i \<Rightarrow> Some (Suc i)
      | None \<Rightarrow> (if x = c then Some 0 else None))"

definition rfind :: "string \<Rightarrow> char \<Rightarrow> int" where
  "rfind p c = (case last_index c p of None \<Rightarrow> - 1 | Some i \<Rightarrow> int i)"

text \<open>\<^verbatim>\<open>os.path.basename\<close> (posixpath): what follows the last slash.\<close>

definition basename :: "string \<Rightarrow> string" where
  "basename p = drop (nat (rfind p (CHR ''/'') + 1)) p"

text \<open>
  \<^verbatim>\<open>os.path.splitext\<close> (posixpath): the path is split at its last dot when that dot
  comes after the last slash and some character between the two is not a dot; the
  loop over those characters is \<open>has_non_dot\<close>.
\<close>

primrec has_non_dot :: "string \<Rightarrow> bool" where
  "has_non_dot [] = False"
| "has_non_dot (c # cs) = (if c \<noteq> CHR ''.'' then True else has_non_dot cs)"

definition splitext :: "string \<Rightarrow> string \<times> string" where
  "splitext p =
     (let sepIndex = rfind p (CHR ''/'');
          dotIndex = rfind p (CHR ''.'')
      in if dotIndex > sepIndex \<and>
            has_non_dot (take (nat dotIndex - nat (sepIndex + 1)) (drop (nat (sepIndex + 1)) p))
         then (take (nat dotIndex) p, drop (nat dotIndex) p)
         else (p, []))"

text \<open>\<^verbatim>\<open>str\<close> of a non-negative integer: its decimal digits.\<close>

definition digit_char :: "nat \<Rightarrow> char" where
  "digit_char d = ''0123456789'' ! d"

fun py_str :: "nat \<Rightarrow> string" where
  "py_str n = (if n < 10 then [digit_char n] else py_str (n div 10) @ [digit_char (n mod 10)])"

declare py_str.simps [simp del]

subsection \<open>Exceptions, archive entries and the environment\<close>

text \<open>
  \<open>BadZipFile\<close> is \<^verbatim>\<open>zipfile.BadZipFile\<close>, \<open>HTTPException\<close> carries the status code and
  the detail, \<open>Exception\<close> stands for every other subclass of \<^verbatim>\<open>Exception\<close>.
\<close>

datatype exn = BadZipFile string | HTTPException nat string | Exception string

text \<open>
  A \<^verbatim>\<open>ZipInfo\<close>: the handler reads \<^verbatim>\<open>filename\<close> and \<^verbatim>\<open>file_size\<close>;
  \<^verbatim>\<open>header_offset\<close> tells apart entries that share both.
\<close>

record zipinfo =
  filename :: string
  file_size :: nat
  header_offset :: nat

text \<open>
  The uploaded file: \<^verbatim>\<open>file.filename\<close> (which may be \<^verbatim>\<open>None\<close>) and the outcome of
  \<^verbatim>\<open>await file.read()\<close>.
\<close>

record upload_file =
  file_filename :: "string option"
  file_read :: "exn + bytes"

text \<open>
  The operations of zipfile, PIL and rembg, over a type \<open>'st\<close> of entry streams and a
  type \<open>'img\<close> of images. Each of them returns or raises:
  \<^item> \<open>ZipFile\<close>: \<^verbatim>\<open>zipfile.ZipFile(BytesIO(contents), 'r')\<close>, giving the archive's
    \<^verbatim>\<open>infolist()\<close>;
  \<^item> \<open>zip_open\<close>: \<^verbatim>\<open>zip_ref.open(file_info)\<close>;
  \<^item> \<open>image_open\<close>: \<^verbatim>\<open>Image.open(img_file).convert('RGBA')\<close>;
  \<^item> \<open>remove\<close>: \<^verbatim>\<open>rembg.remove\<close>;
  \<^item> \<open>save_png\<close>: \<^verbatim>\<open>result.save(img_byte_arr, format='PNG')\<close> and the bytes written;
  \<^item> \<open>stream_read\<close>: \<^verbatim>\<open>original_file.read()\<close>;
  \<^item> \<open>zip_writestr\<close>: whether \<^verbatim>\<open>out_zip.writestr(name, data)\<close> writes the entry or
    raises (as it does for a name that does not fit the 16 bits of the header's name
    length);
  \<^item> \<open>zip_bytes\<close>: the bytes of \<^verbatim>\<open>output_buffer\<close> once \<^verbatim>\<open>out_zip\<close> is closed, for the
    entries written to it in order;
  \<^item> \<open>exc_str\<close>: \<^verbatim>\<open>str(e)\<close>.
\<close>

record ('st, 'img) env =
  ZipFile :: "bytes \<Rightarrow> exn + zipinfo list"
  zip_open :: "zipinfo \<Rightarrow> exn + 'st"
  image_open :: "'st \<Rightarrow> exn + 'img"
  remove :: "'img \<Rightarrow> exn + 'img"
  save_png :: "'img \<Rightarrow> exn + bytes"
  stream_read :: "'st \<Rightarrow> exn + bytes"
  zip_writestr :: "string \<Rightarrow> bytes \<Rightarrow> exn + unit"
  zip_bytes :: "(string \<times> bytes) list \<Rightarrow> bytes"
  exc_str :: "exn \<Rightarrow> string"

text \<open>
  The calls the loop makes on an entry, in the order it makes them, whether they return
  or raise; the argument is the entry's name (for \<open>CallWritestr\<close>, the name to write).
\<close>

datatype call =
    CallZipOpen string
  | CallImageOpen string
  | CallRemove string
  | CallSavePng string
  | CallRead string
  | CallWritestr string

text \<open>
  The loop's state: the entries written to \<^verbatim>\<open>out_zip\<close> (duplicate names are kept, as
  \<^verbatim>\<open>writestr\<close> keeps them), the counter, and the calls made so far.
\<close>

record state =
  out_zip :: "(string \<times> bytes) list"
  processed_files :: nat
  calls :: "call list"

definition init_state :: state where
  "init_state = \<lparr>out_zip = [], processed_files = 0, calls = []\<rparr>"

definition called :: "call \<Rightarrow> state \<Rightarrow> state" where
  "called c s = s\<lparr>calls := calls s @ [c]\<rparr>"

text \<open>
  \<^verbatim>\<open>out_zip.writestr(name, data)\<close>: the entry is added to the archive, or the call raises
  and the archive is as it was (the header is built, and the exception raised, before
  anything is written to the buffer).
\<close>

definition writestr ::
  "('st, 'img) env \<Rightarrow> string \<Rightarrow> bytes \<Rightarrow> state \<Rightarrow> (exn + unit) \<times> state" where
  "writestr env name data s =
     (let s1 = called (CallWritestr name) s in
      case zip_writestr env name data of
        Inl e \<Rightarrow> (Inl e, s1)
      | Inr u \<Rightarrow> (Inr (), s1\<lparr>out_zip := out_zip s1 @ [(name, data)]\<rparr>))"

record response =
  status_code :: nat
  media_type :: string
  headers :: "(string \<times> string) list"
  body :: bytes

subsection \<open>One entry of the archive (lines 94 to 122)\<close>

definition ALLOWED_EXTENSIONS :: "string set" where
  "ALLOWED_EXTENSIONS = {''.png'', ''.jpg'', ''.jpeg'', ''.webp''}"

text \<open>
  Lines 103 to 108: decode, remove the background, encode as PNG. The first operation
  that raises ends the block; the state records the calls made.
\<close>

definition process_image ::
  "('st, 'img) env \<Rightarrow> zipinfo \<Rightarrow> 'st \<Rightarrow> state \<Rightarrow> (exn + bytes) \<times> state" where
  "process_image env file_info img_file s =
     (let s1 = called (CallImageOpen (filename file_info)) s in
      case image_open env img_file of
        Inl e \<Rightarrow> (Inl e, s1)
      | Inr img \<Rightarrow>
          (let s2 = called (CallRemove (filename file_info)) s1 in
           case remove env img of
             Inl e \<Rightarrow> (Inl e, s2)
           | Inr result \<Rightarrow>
               (save_png env result, called (CallSavePng (filename file_info)) s2)))"

text \<open>
  Lines 103 to 113, the body of the inner \<^verbatim>\<open>try\<close>: the PNG is written under the new
  name and then counted. When the write raises, the counter keeps its value.
\<close>

definition try_block ::
  "('st, 'img) env \<Rightarrow> zipinfo \<Rightarrow> 'st \<Rightarrow> state \<Rightarrow> (exn + unit) \<times> state" where
  "try_block env file_info img_file s =
     (case process_image env file_info img_file s of
        (Inl e, s1) \<Rightarrow> (Inl e, s1)
      | (Inr img_byte_arr, s1) \<Rightarrow>
          (let base = fst (splitext (filename file_info));
               new_filename = base @ ''.png''
           in case writestr env new_filename img_byte_arr s1 of
                (Inl e, s2) \<Rightarrow> (Inl e, s2)
              | (Inr u, s2) \<Rightarrow> (Inr (), s2\<lparr>processed_files := processed_files s2 + 1\<rparr>)))"

text \<open>
  Lines 118 and 119, the handler of \<^verbatim>\<open>img_error\<close>: the entry is opened again, its bytes
  are read and written under the original name. An exception here leaves the handler.
\<close>

definition passthrough ::
  "('st, 'img) env \<Rightarrow> zipinfo \<Rightarrow> state \<Rightarrow> (exn + unit) \<times> state" where
  "passthrough env file_info s =
     (let s1 = called (CallZipOpen (filename file_info)) s in
      case zip_open env file_info of
        Inl e \<Rightarrow> (Inl e, s1)
      | Inr original_file \<Rightarrow>
          (let s2 = called (CallRead (filename file_info)) s1 in
           case stream_read env original_file of
             Inl e \<Rightarrow> (Inl e, s2)
           | Inr data \<Rightarrow> writestr env (filename file_info) data s2))"

text \<open>
  Lines 100 to 122. Whatever the inner \<^verbatim>\<open>try\<close> raises, its handler passes the original
  through. The outer handler (line 120) catches what \<^verbatim>\<open>zip_ref.open\<close> or the
  pass-through raises, and the loop goes on.
\<close>

definition process_candidate :: "('st, 'img) env \<Rightarrow> zipinfo \<Rightarrow> state \<Rightarrow> state" where
  "process_candidate env file_info s =
     (let s1 = called (CallZipOpen (filename file_info)) s in
      case zip_open env file_info of
        Inl e \<Rightarrow> s1
      | Inr img_file \<Rightarrow>
          (case try_block env file_info img_file s1 of
             (Inr u, s2) \<Rightarrow> s2
           | (Inl img_error, s2) \<Rightarrow>
               (case passthrough env file_info s2 of
                  (Inr u, s3) \<Rightarrow> s3
                | (Inl e, s3) \<Rightarrow> s3)))"

text \<open>Lines 94 to 99: the body of the loop over \<^verbatim>\<open>zip_ref.infolist()\<close>.\<close>

definition process_entry :: "('st, 'img) env \<Rightarrow> zipinfo \<Rightarrow> state \<Rightarrow> state" where
  "process_entry env file_info s =
     (if file_size file_info = 0 then s
      else
        (let file_ext = lower (snd (splitext (filename file_info)))
         in if file_ext \<in> ALLOWED_EXTENSIONS
            then process_candidate env file_info s
            else s))"

primrec process_entries :: "('st, 'img) env \<Rightarrow> zipinfo list \<Rightarrow> state \<Rightarrow> state" where
  "process_entries env [] s = s"
| "process_entries env (file_info # rest) s = process_entries env rest (process_entry env file_info s)"

subsection \<open>The request handler (lines 62 to 155)\<close>

text \<open>Lines 131 to 139: the response built from the output buffer.\<close>

definition make_response :: "('st, 'img) env \<Rightarrow> string \<Rightarrow> state \<Rightarrow> response" where
  "make_response env name s =
     (let output_buffer = zip_bytes env (out_zip s)
      in \<lparr>status_code = 200,
          media_type = ''application/zip'',
          headers =
            [(''Content-Disposition'', ''attachment; filename=processed_'' @ basename name),
             (''Content-Length'', py_str (length output_buffer))],
          body = output_buffer\<rparr>)"

text \<open>Lines 84 to 141, the body of the inner \<^verbatim>\<open>try\<close>.\<close>

definition inner_body ::
  "('st, 'img) env \<Rightarrow> string \<Rightarrow> bytes \<Rightarrow> exn + response" where
  "inner_body env name contents =
     (case ZipFile env contents of
        Inl e \<Rightarrow> Inl e
      | Inr infolist \<Rightarrow>
          (let file_list = map filename infolist
           in if file_list = [] then Inl (HTTPException 400 ''ZIP file is empty'')
              else
                (let s = process_entries env infolist init_state
                 in if processed_files s = 0
                    then Inl (HTTPException 400 ''No valid images found in the ZIP file'')
                    else Inr (make_response env name s))))"

text \<open>
  Lines 143 to 149, the handlers of the inner \<^verbatim>\<open>try\<close>: \<^verbatim>\<open>except zipfile.BadZipFile\<close>,
  then \<^verbatim>\<open>except Exception as e\<close>, which every other exception matches.
\<close>

definition inner_try ::
  "('st, 'img) env \<Rightarrow> string \<Rightarrow> bytes \<Rightarrow> exn + response" where
  "inner_try env name contents =
     (case inner_body env name contents of
        Inl (BadZipFile m) \<Rightarrow> Inl (HTTPException 400 ''Invalid ZIP file format'')
      | Inl e \<Rightarrow> Inl (HTTPException 500 (''Error processing file: '' @ exc_str env e))
      | Inr r \<Rightarrow> Inr r)"

text \<open>Lines 73 to 149, the body of the outer \<^verbatim>\<open>try\<close>.\<close>

definition outer_body ::
  "('st, 'img) env \<Rightarrow> string \<Rightarrow> upload_file \<Rightarrow> exn + response" where
  "outer_body env name file =
     (case file_read file of
        Inl e \<Rightarrow> Inl e
      | Inr contents \<Rightarrow>
          (if contents = [] then Inl (HTTPException 400 ''The uploaded file is empty'')
           else inner_try env name contents))"

text \<open>
  Lines 151 to 155, the handlers of the outer \<^verbatim>\<open>try\<close>: an \<^verbatim>\<open>HTTPException\<close> is raised
  again as it is, any other exception becomes a 500.
\<close>

definition outer_try ::
  "('st, 'img) env \<Rightarrow> string \<Rightarrow> upload_file \<Rightarrow> exn + response" where
  "outer_try env name file =
     (case outer_body env name file of
        Inl (HTTPException c d) \<Rightarrow> Inl (HTTPException c d)
      | Inl e \<Rightarrow> Inl (HTTPException 500 ''An unexpected error occurred'')
      | Inr r \<Rightarrow> Inr r)"

text \<open>
  \<^verbatim>\<open>remove_bg_zip\<close>: \<open>None\<close> is the request without a file. Lines 63 to 69 come before
  the outer \<^verbatim>\<open>try\<close>.
\<close>

definition remove_bg_zip ::
  "('st, 'img) env \<Rightarrow> upload_file option \<Rightarrow> exn + response" where
  "remove_bg_zip env file_opt =
     (case file_opt of
        None \<Rightarrow> Inl (HTTPException 400 ''No file provided'')
      | Some file \<Rightarrow>
          (case file_filename file of
             None \<Rightarrow> Inl (HTTPException 400 ''No file provided'')
           | Some name \<Rightarrow>
               (if name = [] then Inl (HTTPException 400 ''No file provided'')
                else if \<not> endswith (lower name) ''.zip''
                then Inl (HTTPException 400 ''File must be a ZIP file'')
                else outer_try env name file)))"

subsection \<open>Outcomes of an entry, for stating the properties\<close>

text \<open>
  What lines 103 to 108 give for an opened entry, without the state: the PNG bytes, or
  the exception of the first of the three operations that raises.
\<close>

definition render_png :: "('st, 'img) env \<Rightarrow> 'st \<Rightarrow> exn + bytes" where
  "render_png env img_file =
     (case image_open env img_file of
        Inl e \<Rightarrow> Inl e
      | Inr img \<Rightarrow>
          (case remove env img of
             Inl e \<Rightarrow> Inl e
           | Inr result \<Rightarrow> save_png env result))"

text \<open>
  What the whole inner \<^verbatim>\<open>try\<close> (lines 103 to 113) gives for an opened entry: the PNG
  bytes written under the new name, or the exception that sends the entry to the
  handler of line 115, raised by one of the three operations or by the write.
\<close>

definition try_outcome :: "('st, 'img) env \<Rightarrow> zipinfo \<Rightarrow> 'st \<Rightarrow> exn + bytes" where
  "try_outcome env file_info img_file =
     (case render_png env img_file of
        Inl e \<Rightarrow> Inl e
      | Inr png \<Rightarrow>
          (case zip_writestr env (fst (splitext (filename file_info)) @ ''.png'') png of
             Inl e \<Rightarrow> Inl e
           | Inr u \<Rightarrow> Inr png))"

text \<open>
  An entry is processed successfully when it is not empty, has an allowed extension,
  opens, and the inner \<^verbatim>\<open>try\<close> runs to its end: the image is decoded, its background
  removed, the PNG encoded and written.
\<close>

definition processed_ok :: "('st, 'img) env \<Rightarrow> zipinfo \<Rightarrow> bool" where
  "processed_ok env file_info =
     (file_size file_info \<noteq> 0 \<and>
      lower (snd (splitext (filename file_info))) \<in> ALLOWED_EXTENSIONS \<and>
      (case zip_open env file_info of
         Inl e \<Rightarrow> False
       | Inr img_file \<Rightarrow>
           (case try_outcome env file_info img_file of Inl e \<Rightarrow> False | Inr png \<Rightarrow> True)))"

text \<open>
  The checks on the upload, each as the source writes it:
  \<^verbatim>\<open>not file or not file.filename\<close> (line 63),
  \<^verbatim>\<open>not file.filename.lower().endswith('.zip')\<close> (line 67), \<^verbatim>\<open>not contents\<close> (line 74),
  and what \<^verbatim>\<open>zipfile.ZipFile\<close> raises on the contents (line 84). A check that cannot be
  evaluated (no file, no name, no contents) counts as not failed.
\<close>

definition no_file :: "upload_file option \<Rightarrow> bool" where
  "no_file file_opt =
     (case file_opt of
        None \<Rightarrow> True
      | Some file \<Rightarrow> (case file_filename file of None \<Rightarrow> True | Some name \<Rightarrow> name = []))"

definition not_zip_name :: "upload_file option \<Rightarrow> bool" where
  "not_zip_name file_opt =
     (case file_opt of
        None \<Rightarrow> False
      | Some file \<Rightarrow>
          (case file_filename file of
             None \<Rightarrow> False
           | Some name \<Rightarrow> \<not> endswith (lower name) ''.zip''))"

definition empty_body :: "upload_file option \<Rightarrow> bool" where
  "empty_body file_opt =
     (case file_opt of None \<Rightarrow> False | Some file \<Rightarrow> file_read file = Inr [])"

text \<open>
  The exception that \<^verbatim>\<open>zipfile.ZipFile\<close> raises on the contents of the upload, if it
  raises. The container is malformed when there is one, whatever its class; only a
  \<^verbatim>\<open>BadZipFile\<close> is caught by the handler of line 143.
\<close>

definition zip_error :: "('st, 'img) env \<Rightarrow> upload_file option \<Rightarrow> exn option" where
  "zip_error env file_opt =
     (case file_opt of
        None \<Rightarrow> None
      | Some file \<Rightarrow>
          (case file_read file of
             Inl e \<Rightarrow> None
           | Inr contents \<Rightarrow>
               (case ZipFile env contents of Inl e \<Rightarrow> Some e | Inr infolist \<Rightarrow> None)))"

definition malformed_zip :: "('st, 'img) env \<Rightarrow> upload_file option \<Rightarrow> bool" where
  "malformed_zip env file_opt =
     (case zip_error env file_opt of None \<Rightarrow> False | Some e \<Rightarrow> True)"

definition is_BadZipFile :: "exn \<Rightarrow> bool" where
  "is_BadZipFile e =
     (case e of BadZipFile m \<Rightarrow> True | HTTPException c d \<Rightarrow> False | Exception m \<Rightarrow> False)"

subsection \<open>A concrete environment\<close>

text \<open>
  An environment for the concrete cases below. A stream and an image are the name of
  their entry.

  Three uploads stand for archives with the entries listed. Two uploads are given byte
  for byte: the 22 bytes of an archive without entries, and the 69 bytes of an archive
  whose one central directory record (46 bytes, then the name \<^verbatim>\<open>a\<close>, then the 22 bytes
  of the end record) asks for version 6.4 of the format, on which \<^verbatim>\<open>zipfile\<close> raises
  \<^verbatim>\<open>NotImplementedError\<close>. Any other content is not a ZIP file.

  The entry \<^verbatim>\<open>locked.png\<close> does not open; \<^verbatim>\<open>corrupt.png\<close> does not decode;
  \<^verbatim>\<open>damaged.png\<close> has a wrong checksum, so that reading its stream to the end raises,
  in the decoder and when its bytes are read back.

  \<^verbatim>\<open>writestr\<close> raises for a name whose UTF-8 form is longer than 65535 bytes. A
  character below 128 takes one byte of it and any other of the 256 characters takes
  two. \<open>long_name\<close> is such a name: 32766 times the letter e with an acute accent
  (U+00E9), then \<^verbatim>\<open>.jpg\<close>. In an uploaded archive it is stored in code page 437, in
  32770 bytes.
\<close>

definition entry :: "string \<Rightarrow> nat \<Rightarrow> nat \<Rightarrow> zipinfo" where
  "entry name n offset = \<lparr>filename = name, file_size = n, header_offset = offset\<rparr>"

definition utf8_length :: "string \<Rightarrow> nat" where
  "utf8_length name = sum_list (map (\<lambda>c. if digit7 c then 2 else 1) name)"

definition long_name :: string where
  "long_name = replicate 32766 (CHR 0xE9) @ ''.jpg''"

definition unsupported_zip :: bytes where
  "unsupported_zip =
     [80, 75, 1, 2, 20, 3, 64, 0] @ replicate 20 0 @ [1, 0] @ replicate 16 0 @ [97] @
     [80, 75, 5, 6] @ replicate 4 0 @ [1, 0, 1, 0, 47] @ replicate 9 0"

definition demo_env :: "(string, string) env" where
  "demo_env =
     \<lparr>ZipFile = (\<lambda>contents.
        if contents = [1] then Inr [entry ''corrupt.png'' 120 0]
        else if contents = [2] then Inr [entry ''a.jpg'' 51200 0, entry ''notes.txt'' 10 51300]
        else if contents = [3] then Inr [entry ''a.jpg'' 51200 0, entry ''a.webp'' 4000 51300]
        else if contents = [80, 75, 5, 6] @ replicate 18 0 then Inr []
        else if contents = unsupported_zip then Inl (Exception ''zip file version 6.4'')
        else Inl (BadZipFile ''File is not a zip file'')),
      zip_open = (\<lambda>file_info.
        if filename file_info = ''locked.png'' then Inl (Exception ''File is encrypted'')
        else Inr (filename file_info)),
      image_open = (\<lambda>img_file.
        if img_file = ''corrupt.png'' then Inl (Exception ''cannot identify image file'')
        else if img_file = ''damaged.png'' then Inl (BadZipFile ''Bad CRC-32'')
        else Inr img_file),
      remove = (\<lambda>img. Inr img),
      save_png = (\<lambda>result. Inr [137, 80, 78, 71]),
      stream_read = (\<lambda>original_file.
        if original_file = ''damaged.png'' then Inl (BadZipFile ''Bad CRC-32'')
        else Inr [255, 216, 255]),
      zip_writestr = (\<lambda>name data.
        if 65535 < utf8_length name
        then Inl (Exception ''ushort format requires 0 <= number <= 65535'')
        else Inr ()),
      zip_bytes = (\<lambda>entries. concat (map snd entries)),
      exc_str = (\<lambda>e. case e of
          BadZipFile m \<Rightarrow> m
        | HTTPException c d \<Rightarrow> py_str c @ '': '' @ d
        | Exception m \<Rightarrow> m)\<rparr>"

definition upload :: "string \<Rightarrow> bytes \<Rightarrow> upload_file option" where
  "upload name contents = Some \<lparr>file_filename = Some name, file_read = Inr contents\<rparr>"

section \<open>Properties\<close>

subsection \<open>Supporting lemmas\<close>

lemma splitext_join: "fst (splitext p) @ snd (splitext p) = p"
  by (simp add: splitext_def Let_def)

lemmas loop_defs =
  process_entry_def process_candidate_def try_block_def process_image_def passthrough_def
  writestr_def called_def

lemmas outcome_defs = render_png_def try_outcome_def

lemmas handler_defs =
  remove_bg_zip_def outer_try_def outer_body_def inner_try_def inner_body_def

lemmas demo_simps =
  demo_env_def entry_def upload_def init_state_def ALLOWED_EXTENSIONS_def splitext_def rfind_def
  lower_def lower_char_def render_png_def try_outcome_def processed_ok_def utf8_length_def Let_def

lemma process_image_result: "fst (process_image env file_info img_file s) = render_png env img_file"
  by (simp add: process_image_def render_png_def Let_def split: sum.splits)

lemma try_outcome_render_raises:
  "render_png env img_file = Inl e \<Longrightarrow> try_outcome env file_info img_file = Inl e"
  by (simp add: try_outcome_def)

lemma try_outcome_written:
  "render_png env img_file = Inr png \<Longrightarrow>
   zip_writestr env (fst (splitext (filename file_info)) @ ''.png'') png = Inr () \<Longrightarrow>
   try_outcome env file_info img_file = Inr png"
  by (simp add: try_outcome_def)

lemma try_outcome_write_raises:
  "render_png env img_file = Inr png \<Longrightarrow>
   zip_writestr env (fst (splitext (filename file_info)) @ ''.png'') png = Inl e \<Longrightarrow>
   try_outcome env file_info img_file = Inl e"
  by (simp add: try_outcome_def)

lemma candidate_open_raises:
  "zip_open env file_info = Inl e \<Longrightarrow>
   process_candidate env file_info s = s\<lparr>calls := calls s @ [CallZipOpen (filename file_info)]\<rparr>"
  by (simp add: process_candidate_def called_def Let_def)

lemma candidate_processed:
  assumes "zip_open env file_info = Inr img_file"
    and "try_outcome env file_info img_file = Inr png"
  shows "out_zip (process_candidate env file_info s) =
           out_zip s @ [(fst (splitext (filename file_info)) @ ''.png'', png)]"
    and "processed_files (process_candidate env file_info s) = processed_files s + 1"
  using assms
  by (auto simp: loop_defs outcome_defs Let_def split: sum.splits)

lemma candidate_passthrough:
  assumes "zip_open env file_info = Inr img_file"
    and "try_outcome env file_info img_file = Inl img_error"
    and "stream_read env img_file = Inr original"
    and "zip_writestr env (filename file_info) original = Inr ()"
  shows "out_zip (process_candidate env file_info s) = out_zip s @ [(filename file_info, original)]"
    and "processed_files (process_candidate env file_info s) = processed_files s"
  using assms
  by (auto simp: loop_defs outcome_defs Let_def split: sum.splits)

lemma candidate_dropped:
  assumes "zip_open env file_info = Inr img_file"
    and "try_outcome env file_info img_file = Inl img_error"
    and "stream_read env img_file = Inl e \<or>
         (\<exists>original. stream_read env img_file = Inr original \<and>
            zip_writestr env (filename file_info) original = Inl e)"
  shows "\<exists>cs. process_candidate env file_info s = s\<lparr>calls := calls s @ cs\<rparr>"
  using assms
  by (auto simp: loop_defs outcome_defs Let_def split: sum.splits)

lemma candidate_count:
  "processed_files (process_candidate env file_info s) =
     processed_files s +
     (case zip_open env file_info of
        Inl e \<Rightarrow> 0
      | Inr img_file \<Rightarrow>
          (case try_outcome env file_info img_file of Inl e \<Rightarrow> 0 | Inr png \<Rightarrow> 1))"
  by (auto simp: loop_defs outcome_defs Let_def split: sum.splits)

lemma entry_count:
  "processed_files (process_entry env file_info s) =
     processed_files s + (if processed_ok env file_info then 1 else 0)"
  by (auto simp: process_entry_def processed_ok_def candidate_count Let_def split: sum.splits)

lemma entries_count:
  "processed_files (process_entries env infolist s) =
     processed_files s + length (filter (processed_ok env) infolist)"
  by (induction infolist arbitrary: s) (simp_all add: entry_count)

lemma entry_processed:
  assumes "processed_ok env file_info"
  shows "\<exists>img_file png.
           zip_open env file_info = Inr img_file \<and> try_outcome env file_info img_file = Inr png \<and>
           out_zip (process_entry env file_info s) =
             out_zip s @ [(fst (splitext (filename file_info)) @ ''.png'', png)]"
proof -
  from assms obtain img_file png where
    ran: "zip_open env file_info = Inr img_file" "try_outcome env file_info img_file = Inr png"
    and candidate: "file_size file_info \<noteq> 0"
      "lower (snd (splitext (filename file_info))) \<in> ALLOWED_EXTENSIONS"
    by (auto simp: processed_ok_def split: sum.splits)
  from candidate have "process_entry env file_info s = process_candidate env file_info s"
    by (simp add: process_entry_def Let_def)
  with ran candidate_processed(1) [OF ran, of s] show ?thesis by simp
qed

lemma py_str_400: "py_str 400 = ''400''"
  by (simp add: py_str.simps digit_char_def)

text \<open>The long name: how it splits, and how long its UTF-8 form is.\<close>

lemma last_index_absent: "c \<notin> set xs \<Longrightarrow> last_index c xs = None"
  by (induction xs) auto

lemma last_index_append:
  "last_index c (xs @ ys) =
     (case last_index c ys of Some i \<Rightarrow> Some (length xs + i) | None \<Rightarrow> last_index c xs)"
  by (induction xs) (auto split: option.splits)

lemma has_non_dot_replicate: "0 < n \<Longrightarrow> c \<noteq> CHR ''.'' \<Longrightarrow> has_non_dot (replicate n c)"
  by (cases n) auto

lemma splitext_long_name: "splitext long_name = (replicate 32766 (CHR 0xE9), ''.jpg'')"
  by (simp add: splitext_def rfind_def long_name_def last_index_append last_index_absent
      has_non_dot_replicate Let_def)

lemma utf8_length_long_name:
  "utf8_length long_name = 65536"
  "utf8_length (replicate 32766 (CHR 0xE9) @ ''.png'') = 65536"
  by (simp_all add: utf8_length_def long_name_def sum_list_replicate)

lemma length_long_name: "length long_name = 32770"
  by (simp add: long_name_def)

lemma long_name_differs: "length name \<noteq> 32770 \<Longrightarrow> long_name \<noteq> name"
  using length_long_name by auto

lemma demo_long_entry:
  "file_size (entry long_name 4096 0) \<noteq> 0"
  "lower (snd (splitext (filename (entry long_name 4096 0)))) \<in> ALLOWED_EXTENSIONS"
  "zip_open demo_env (entry long_name 4096 0) = Inr long_name"
  "render_png demo_env long_name = Inr [137, 80, 78, 71]"
  "stream_read demo_env long_name = Inr [255, 216, 255]"
  "zip_writestr demo_env (fst (splitext (filename (entry long_name 4096 0))) @ ''.png'') png =
     Inl (Exception ''ushort format requires 0 <= number <= 65535'')"
  "zip_writestr demo_env (filename (entry long_name 4096 0)) original =
     Inl (Exception ''ushort format requires 0 <= number <= 65535'')"
  by (simp_all add: demo_env_def entry_def render_png_def long_name_differs splitext_long_name
      utf8_length_long_name lower_def lower_char_def ALLOWED_EXTENSIONS_def)

text \<open>
  The two \<^verbatim>\<open>HTTPException\<close>s of status 400 that are raised inside the inner \<^verbatim>\<open>try\<close>
  (lines 88 and 126) are caught by its \<^verbatim>\<open>except Exception\<close> and leave the handler
  with status 500.
\<close>

lemma zero_processed_raises_500:
  assumes "file_filename file = Some name" and "name \<noteq> []" and "endswith (lower name) ''.zip''"
    and "file_read file = Inr contents" and "contents \<noteq> []"
    and "ZipFile env contents = Inr infolist" and "infolist \<noteq> []"
    and "processed_files (process_entries env infolist init_state) = 0"
  shows "remove_bg_zip env (Some file) =
           Inl (HTTPException 500 (''Error processing file: '' @
             exc_str env (HTTPException 400 ''No valid images found in the ZIP file'')))"
  using assms by (simp add: handler_defs)

lemma empty_archive_raises_500:
  assumes "file_filename file = Some name" and "name \<noteq> []" and "endswith (lower name) ''.zip''"
    and "file_read file = Inr contents" and "contents \<noteq> []"
    and "ZipFile env contents = Inr []"
  shows "remove_bg_zip env (Some file) =
           Inl (HTTPException 500 (''Error processing file: '' @
             exc_str env (HTTPException 400 ''ZIP file is empty'')))"
  using assms by (simp add: handler_defs)

subsection \<open>Entries that are skipped or dropped\<close>

text \<open>
  Claim C6. An entry whose declared size is 0 leaves the state as it is: nothing is
  written, the counter keeps its value and no call is recorded, so neither the stream is
  opened nor an image decoded. This holds for every name, whatever its extension: the
  size is tested first. The loop goes on with the remaining entries.
\<close>

theorem empty_entry_skipped:
  assumes "file_size file_info = 0"
  shows "process_entry env file_info s = s \<and>
         process_entries env (file_info # rest) s = process_entries env rest s"
  using assms by (simp add: process_entry_def)

theorem empty_entry_skipped_witness:
  "file_size (entry ''empty.png'' 0 0) = 0 \<and>
   process_entry demo_env (entry ''empty.png'' 0 0) init_state = init_state \<and>
   process_entries demo_env [entry ''empty.png'' 0 0, entry ''a.jpg'' 51200 40] init_state =
     process_entries demo_env [entry ''a.jpg'' 51200 40] init_state"
proof -
  have empty: "file_size (entry ''empty.png'' 0 0) = 0"
    by (simp add: entry_def)
  from empty_entry_skipped [OF empty, of demo_env init_state "[entry ''a.jpg'' 51200 40]"] empty
  show ?thesis by simp
qed

text \<open>
  Claim C7. A non-empty entry whose lower-cased extension is not one of the four allowed
  ones leaves the state as it is: it is not copied into the output and not counted.
\<close>

theorem unrecognized_extension_dropped:
  assumes "file_size file_info \<noteq> 0"
    and "lower (snd (splitext (filename file_info))) \<notin> ALLOWED_EXTENSIONS"
  shows "process_entry env file_info s = s \<and>
         process_entries env (file_info # rest) s = process_entries env rest s"
  using assms by (simp add: process_entry_def Let_def)

theorem unrecognized_extension_dropped_witness:
  "file_size (entry ''notes.txt'' 10 0) \<noteq> 0 \<and>
   lower (snd (splitext (filename (entry ''notes.txt'' 10 0)))) \<notin> ALLOWED_EXTENSIONS \<and>
   process_entry demo_env (entry ''notes.txt'' 10 0) init_state = init_state"
proof -
  have nonempty: "file_size (entry ''notes.txt'' 10 0) \<noteq> 0"
    by (simp add: entry_def)
  have ext: "lower (snd (splitext (filename (entry ''notes.txt'' 10 0)))) \<notin> ALLOWED_EXTENSIONS"
    by (simp add: demo_simps)
  from unrecognized_extension_dropped [OF nonempty ext, of demo_env init_state "[]"] nonempty ext
  show ?thesis by simp
qed

subsection \<open>Entries that fail to process\<close>

text \<open>
  Claim C4, as stated, fails: the entry \<^verbatim>\<open>damaged.png\<close> is not empty, has an allowed
  extension and opens, its decoding raises, and reading its bytes back raises too; the
  output then holds no entry at all.
\<close>

theorem failed_image_not_always_passed_through:
  "file_size (entry ''damaged.png'' 2048 0) \<noteq> 0 \<and>
   lower (snd (splitext (filename (entry ''damaged.png'' 2048 0)))) \<in> ALLOWED_EXTENSIONS \<and>
   zip_open demo_env (entry ''damaged.png'' 2048 0) = Inr ''damaged.png'' \<and>
   render_png demo_env ''damaged.png'' = Inl (BadZipFile ''Bad CRC-32'') \<and>
   out_zip (process_entry demo_env (entry ''damaged.png'' 2048 0) init_state) = []"
  by (simp add: demo_simps loop_defs)

text \<open>
  Claim C4, amended. When decoding, background removal or PNG encoding of a non-empty
  entry with an allowed extension raises, and the entry's bytes are then read back and
  written to the output without an exception, exactly one entry is added to the output:
  its name is the original name, its bytes are the bytes read back, and the counter
  keeps its value.
\<close>

theorem failed_image_passed_through:
  assumes "file_size file_info \<noteq> 0"
    and "lower (snd (splitext (filename file_info))) \<in> ALLOWED_EXTENSIONS"
    and "zip_open env file_info = Inr img_file"
    and "render_png env img_file = Inl img_error"
    and "stream_read env img_file = Inr original"
    and "zip_writestr env (filename file_info) original = Inr ()"
  shows "out_zip (process_entry env file_info s) = out_zip s @ [(filename file_info, original)] \<and>
         processed_files (process_entry env file_info s) = processed_files s"
proof -
  have raised: "try_outcome env file_info img_file = Inl img_error"
    using assms(4) by (rule try_outcome_render_raises)
  have "process_entry env file_info s = process_candidate env file_info s"
    using assms(1,2) by (simp add: process_entry_def Let_def)
  then show ?thesis
    using candidate_passthrough [OF assms(3) raised assms(5,6), of s] by simp
qed

theorem failed_image_passed_through_witness:
  "file_size (entry ''corrupt.png'' 120 0) \<noteq> 0 \<and>
   lower (snd (splitext (filename (entry ''corrupt.png'' 120 0)))) \<in> ALLOWED_EXTENSIONS \<and>
   zip_open demo_env (entry ''corrupt.png'' 120 0) = Inr ''corrupt.png'' \<and>
   render_png demo_env ''corrupt.png'' = Inl (Exception ''cannot identify image file'') \<and>
   stream_read demo_env ''corrupt.png'' = Inr [255, 216, 255] \<and>
   zip_writestr demo_env (filename (entry ''corrupt.png'' 120 0)) [255, 216, 255] = Inr () \<and>
   out_zip (process_entry demo_env (entry ''corrupt.png'' 120 0) init_state) =
     [(''corrupt.png'', [255, 216, 255])] \<and>
   processed_files (process_entry demo_env (entry ''corrupt.png'' 120 0) init_state) = 0"
proof -
  have nonempty: "file_size (entry ''corrupt.png'' 120 0) \<noteq> 0"
    by (simp add: entry_def)
  have ext: "lower (snd (splitext (filename (entry ''corrupt.png'' 120 0)))) \<in> ALLOWED_EXTENSIONS"
    by (simp add: demo_simps)
  have opened: "zip_open demo_env (entry ''corrupt.png'' 120 0) = Inr ''corrupt.png''"
    by (simp add: demo_simps)
  have raised: "render_png demo_env ''corrupt.png'' = Inl (Exception ''cannot identify image file'')"
    by (simp add: demo_simps)
  have reread: "stream_read demo_env ''corrupt.png'' = Inr [255, 216, 255]"
    by (simp add: demo_simps)
  have written: "zip_writestr demo_env (filename (entry ''corrupt.png'' 120 0)) [255, 216, 255] = Inr ()"
    by (simp add: demo_simps)
  from failed_image_passed_through [OF nonempty ext opened raised reread written, of init_state]
    nonempty ext opened raised reread written
  show ?thesis by (simp add: init_state_def entry_def)
qed

text \<open>
  Claim C10. A non-empty entry with an allowed extension is left out of the output, and
  the loop goes on with the remaining entries, in these cases: when opening its stream
  raises, and then the only call made is that \<^verbatim>\<open>zip_ref.open\<close>, before any decoding;
  and when the inner \<^verbatim>\<open>try\<close> raises and the pass-through raises too, either in
  reading the entry's bytes back or in writing them to the output. In all of them the
  state changes in its recorded calls only: the output and the counter are as before.
\<close>

theorem unreadable_entry_omitted:
  assumes "file_size file_info \<noteq> 0"
    and "lower (snd (splitext (filename file_info))) \<in> ALLOWED_EXTENSIONS"
    and "zip_open env file_info = Inl e \<or>
         (\<exists>img_file img_error.
            zip_open env file_info = Inr img_file \<and>
            try_outcome env file_info img_file = Inl img_error \<and>
            (stream_read env img_file = Inl e \<or>
             (\<exists>original. stream_read env img_file = Inr original \<and>
                zip_writestr env (filename file_info) original = Inl e)))"
  shows "\<exists>cs. process_entry env file_info s = s\<lparr>calls := calls s @ cs\<rparr> \<and>
           out_zip (process_entry env file_info s) = out_zip s \<and>
           processed_files (process_entry env file_info s) = processed_files s \<and>
           (zip_open env file_info = Inl e \<longrightarrow> cs = [CallZipOpen (filename file_info)]) \<and>
           process_entries env (file_info # rest) s =
             process_entries env rest (s\<lparr>calls := calls s @ cs\<rparr>)"
proof -
  have candidate: "process_entry env file_info s = process_candidate env file_info s"
    using assms(1,2) by (simp add: process_entry_def Let_def)
  from assms(3) show ?thesis
  proof
    assume "zip_open env file_info = Inl e"
    then show ?thesis
      using candidate by (simp add: candidate_open_raises)
  next
    assume "\<exists>img_file img_error.
              zip_open env file_info = Inr img_file \<and>
              try_outcome env file_info img_file = Inl img_error \<and>
              (stream_read env img_file = Inl e \<or>
               (\<exists>original. stream_read env img_file = Inr original \<and>
                  zip_writestr env (filename file_info) original = Inl e))"
    then obtain img_file img_error where
      "zip_open env file_info = Inr img_file" "try_outcome env file_info img_file = Inl img_error"
      "stream_read env img_file = Inl e \<or>
         (\<exists>original. stream_read env img_file = Inr original \<and>
            zip_writestr env (filename file_info) original = Inl e)"
      by blast
    from candidate_dropped [OF this, of s] obtain cs where
      "process_candidate env file_info s = s\<lparr>calls := calls s @ cs\<rparr>"
      by blast
    with candidate \<open>zip_open env file_info = Inr img_file\<close> show ?thesis
      by auto
  qed
qed

theorem unreadable_entry_omitted_witness:
  "file_size (entry ''locked.png'' 300 0) \<noteq> 0 \<and>
   lower (snd (splitext (filename (entry ''locked.png'' 300 0)))) \<in> ALLOWED_EXTENSIONS \<and>
   zip_open demo_env (entry ''locked.png'' 300 0) = Inl (Exception ''File is encrypted'') \<and>
   file_size (entry ''damaged.png'' 2048 400) \<noteq> 0 \<and>
   lower (snd (splitext (filename (entry ''damaged.png'' 2048 400)))) \<in> ALLOWED_EXTENSIONS \<and>
   zip_open demo_env (entry ''damaged.png'' 2048 400) = Inr ''damaged.png'' \<and>
   try_outcome demo_env (entry ''damaged.png'' 2048 400) ''damaged.png'' =
     Inl (BadZipFile ''Bad CRC-32'') \<and>
   stream_read demo_env ''damaged.png'' = Inl (BadZipFile ''Bad CRC-32'') \<and>
   file_size (entry long_name 4096 0) \<noteq> 0 \<and>
   lower (snd (splitext (filename (entry long_name 4096 0)))) \<in> ALLOWED_EXTENSIONS \<and>
   zip_open demo_env (entry long_name 4096 0) = Inr long_name \<and>
   try_outcome demo_env (entry long_name 4096 0) long_name =
     Inl (Exception ''ushort format requires 0 <= number <= 65535'') \<and>
   stream_read demo_env long_name = Inr [255, 216, 255] \<and>
   zip_writestr demo_env (filename (entry long_name 4096 0)) [255, 216, 255] =
     Inl (Exception ''ushort format requires 0 <= number <= 65535'') \<and>
   out_zip (process_entry demo_env (entry ''locked.png'' 300 0) init_state) = [] \<and>
   out_zip (process_entry demo_env (entry ''damaged.png'' 2048 400) init_state) = [] \<and>
   out_zip (process_entry demo_env (entry long_name 4096 0) init_state) = [] \<and>
   (\<exists>cs. process_entries demo_env [entry long_name 4096 0, entry ''a.jpg'' 51200 5000] init_state =
      process_entries demo_env [entry ''a.jpg'' 51200 5000]
        (init_state\<lparr>calls := calls init_state @ cs\<rparr>))"
proof -
  let ?locked = "entry ''locked.png'' 300 0"
  let ?damaged = "entry ''damaged.png'' 2048 400"
  let ?long = "entry long_name 4096 0"
  let ?too_long = "Exception ''ushort format requires 0 <= number <= 65535''"
  have locked: "file_size ?locked \<noteq> 0"
    "lower (snd (splitext (filename ?locked))) \<in> ALLOWED_EXTENSIONS"
    by (simp_all add: demo_simps)
  have locked_raises: "zip_open demo_env ?locked = Inl (Exception ''File is encrypted'')"
    by (simp add: demo_simps)
  have damaged: "file_size ?damaged \<noteq> 0"
    "lower (snd (splitext (filename ?damaged))) \<in> ALLOWED_EXTENSIONS"
    by (simp_all add: demo_simps)
  have damaged_raises: "zip_open demo_env ?damaged = Inr ''damaged.png''"
    "try_outcome demo_env ?damaged ''damaged.png'' = Inl (BadZipFile ''Bad CRC-32'')"
    "stream_read demo_env ''damaged.png'' = Inl (BadZipFile ''Bad CRC-32'')"
    by (simp_all add: demo_simps)
  have long_raises: "zip_open demo_env ?long = Inr long_name"
    "try_outcome demo_env ?long long_name = Inl ?too_long"
    "stream_read demo_env long_name = Inr [255, 216, 255]"
    "zip_writestr demo_env (filename ?long) [255, 216, 255] = Inl ?too_long"
    by (simp_all add: demo_long_entry try_outcome_write_raises [OF demo_long_entry(4)])
  have first: "out_zip (process_entry demo_env ?locked init_state) = []"
    using unreadable_entry_omitted [OF locked, of demo_env "Exception ''File is encrypted''"
        init_state "[]"] locked_raises
    by (auto simp: init_state_def)
  have second: "out_zip (process_entry demo_env ?damaged init_state) = []"
    using unreadable_entry_omitted [OF damaged, of demo_env "BadZipFile ''Bad CRC-32''"
        init_state "[]"] damaged_raises
    by (auto simp: init_state_def)
  from unreadable_entry_omitted [OF demo_long_entry(1,2), of demo_env ?too_long init_state
      "[entry ''a.jpg'' 51200 5000]"] long_raises
  have third: "out_zip (process_entry demo_env ?long init_state) = [] \<and>
    (\<exists>cs. process_entries demo_env [?long, entry ''a.jpg'' 51200 5000] init_state =
      process_entries demo_env [entry ''a.jpg'' 51200 5000]
        (init_state\<lparr>calls := calls init_state @ cs\<rparr>))"
    by (auto simp: init_state_def)
  from locked locked_raises damaged damaged_raises demo_long_entry(1,2) long_raises first second
    third
  show ?thesis by simp
qed

subsection \<open>Entries that are processed\<close>

text \<open>
  Claim C5, as stated, fails: the entry named \<open>long_name\<close> is not empty, has an allowed
  extension, opens, decodes, has its background removed and is encoded as PNG, but the
  new name does not fit the header and the write of line 112 raises. The handler then
  tries the pass-through, whose write raises for the same reason: nothing is written
  and the counter keeps its value.
\<close>

theorem processed_entry_not_always_written:
  "file_size (entry long_name 4096 0) \<noteq> 0 \<and>
   lower (snd (splitext (filename (entry long_name 4096 0)))) \<in> ALLOWED_EXTENSIONS \<and>
   zip_open demo_env (entry long_name 4096 0) = Inr long_name \<and>
   render_png demo_env long_name = Inr [137, 80, 78, 71] \<and>
   out_zip (process_entry demo_env (entry long_name 4096 0) init_state) = [] \<and>
   processed_files (process_entry demo_env (entry long_name 4096 0) init_state) = 0"
proof -
  let ?long = "entry long_name 4096 0"
  have raised: "try_outcome demo_env ?long long_name =
      Inl (Exception ''ushort format requires 0 <= number <= 65535'')"
    by (rule try_outcome_write_raises [OF demo_long_entry(4,6)])
  have "stream_read demo_env long_name = Inl (Exception ''ushort format requires 0 <= number <= 65535'') \<or>
        (\<exists>original. stream_read demo_env long_name = Inr original \<and>
           zip_writestr demo_env (filename ?long) original =
             Inl (Exception ''ushort format requires 0 <= number <= 65535''))"
    using demo_long_entry(5,7) by blast
  from candidate_dropped [OF demo_long_entry(3) raised this, of init_state]
  obtain cs where "process_candidate demo_env ?long init_state =
      init_state\<lparr>calls := calls init_state @ cs\<rparr>"
    by blast
  moreover have "process_entry demo_env ?long init_state = process_candidate demo_env ?long init_state"
    using demo_long_entry(1,2) by (simp add: process_entry_def Let_def)
  ultimately have "out_zip (process_entry demo_env ?long init_state) = []"
    "processed_files (process_entry demo_env ?long init_state) = 0"
    by (simp_all add: init_state_def)
  with demo_long_entry(1-4) show ?thesis by simp
qed

text \<open>
  Claim C5, amended. When a non-empty entry with an allowed extension opens, decodes,
  has its background removed, is encoded as PNG and is written to the output without an
  exception, exactly one entry is added to the output: its name is the root that
  \<^verbatim>\<open>splitext\<close> gives for the original name (the original name is that root followed by
  its extension) followed by \<^verbatim>\<open>.png\<close>, its bytes are the encoded PNG, and the counter
  grows by one. After the loop the counter is the number of the archive's entries that
  were processed successfully, the write included.
\<close>

theorem processed_entry_named_png_and_counted:
  "(\<forall>img_file png.
      file_size file_info \<noteq> 0 \<and>
      lower (snd (splitext (filename file_info))) \<in> ALLOWED_EXTENSIONS \<and>
      zip_open env file_info = Inr img_file \<and> render_png env img_file = Inr png \<and>
      zip_writestr env (fst (splitext (filename file_info)) @ ''.png'') png = Inr () \<longrightarrow>
      out_zip (process_entry env file_info s) =
        out_zip s @ [(fst (splitext (filename file_info)) @ ''.png'', png)] \<and>
      processed_files (process_entry env file_info s) = processed_files s + 1) \<and>
   fst (splitext (filename file_info)) @ snd (splitext (filename file_info)) = filename file_info \<and>
   processed_files (process_entries env infolist init_state) =
     length (filter (processed_ok env) infolist)"
proof -
  have count: "processed_files (process_entries env infolist init_state) =
          length (filter (processed_ok env) infolist)"
    by (simp add: entries_count init_state_def)
  have one: "out_zip (process_entry env file_info s) =
        out_zip s @ [(fst (splitext (filename file_info)) @ ''.png'', png)] \<and>
      processed_files (process_entry env file_info s) = processed_files s + 1"
    if "file_size file_info \<noteq> 0"
      and "lower (snd (splitext (filename file_info))) \<in> ALLOWED_EXTENSIONS"
      and "zip_open env file_info = Inr img_file" and "render_png env img_file = Inr png"
      and "zip_writestr env (fst (splitext (filename file_info)) @ ''.png'') png = Inr ()"
    for img_file png
  proof -
    have "try_outcome env file_info img_file = Inr png"
      using that(4,5) by (rule try_outcome_written)
    from candidate_processed [OF that(3) this, of s] that(1,2)
    show ?thesis by (simp add: process_entry_def Let_def)
  qed
  from count one show ?thesis
    by (simp add: splitext_join)
qed

theorem processed_entry_named_png_and_counted_witness:
  "file_size (entry ''a.jpg'' 51200 0) \<noteq> 0 \<and>
   lower (snd (splitext (filename (entry ''a.jpg'' 51200 0)))) \<in> ALLOWED_EXTENSIONS \<and>
   zip_open demo_env (entry ''a.jpg'' 51200 0) = Inr ''a.jpg'' \<and>
   render_png demo_env ''a.jpg'' = Inr [137, 80, 78, 71] \<and>
   zip_writestr demo_env ''a.png'' [137, 80, 78, 71] = Inr () \<and>
   out_zip (process_entry demo_env (entry ''a.jpg'' 51200 0) init_state) =
     [(''a.png'', [137, 80, 78, 71])] \<and>
   processed_files (process_entry demo_env (entry ''a.jpg'' 51200 0) init_state) = 1 \<and>
   processed_files
     (process_entries demo_env [entry ''a.jpg'' 51200 0, entry ''notes.txt'' 10 51300] init_state) = 1"
proof -
  have hyps:
    "file_size (entry ''a.jpg'' 51200 0) \<noteq> 0 \<and>
     lower (snd (splitext (filename (entry ''a.jpg'' 51200 0)))) \<in> ALLOWED_EXTENSIONS \<and>
     zip_open demo_env (entry ''a.jpg'' 51200 0) = Inr ''a.jpg'' \<and>
     render_png demo_env ''a.jpg'' = Inr [137, 80, 78, 71] \<and>
     zip_writestr demo_env ''a.png'' [137, 80, 78, 71] = Inr ()"
    by (simp add: demo_simps)
  have base: "fst (splitext (filename (entry ''a.jpg'' 51200 0))) = ''a''"
    by (simp add: demo_simps)
  have ok: "filter (processed_ok demo_env) [entry ''a.jpg'' 51200 0, entry ''notes.txt'' 10 51300] =
              [entry ''a.jpg'' 51200 0]"
    by (simp add: demo_simps)
  from processed_entry_named_png_and_counted
         [of "entry ''a.jpg'' 51200 0" demo_env init_state
             "[entry ''a.jpg'' 51200 0, entry ''notes.txt'' 10 51300]"]
       hyps base ok
  show ?thesis by (simp add: init_state_def)
qed

text \<open>
  Claim C9. Two entries that are both processed successfully and whose names have the
  same root are written under the same name, one after the other: the output holds two
  entries named root\<^verbatim>\<open>.png\<close>. The witness is an archive holding \<^verbatim>\<open>a.jpg\<close> and
  \<^verbatim>\<open>a.webp\<close>.
\<close>

theorem output_names_not_deduplicated:
  assumes "processed_ok env first" and "processed_ok env second"
    and "fst (splitext (filename first)) = fst (splitext (filename second))"
  shows "map fst (out_zip (process_entries env [first, second] init_state)) =
           [fst (splitext (filename first)) @ ''.png'', fst (splitext (filename first)) @ ''.png'']"
proof -
  from entry_processed [OF assms(1), of init_state] obtain png1 where
    one: "out_zip (process_entry env first init_state) =
            out_zip init_state @ [(fst (splitext (filename first)) @ ''.png'', png1)]"
    by blast
  from entry_processed [OF assms(2), of "process_entry env first init_state"] obtain png2 where
    two: "out_zip (process_entry env second (process_entry env first init_state)) =
            out_zip (process_entry env first init_state) @
              [(fst (splitext (filename second)) @ ''.png'', png2)]"
    by blast
  show ?thesis
    using one two assms(3) by (simp add: init_state_def)
qed

theorem output_names_not_deduplicated_witness:
  "processed_ok demo_env (entry ''a.jpg'' 51200 0) \<and>
   processed_ok demo_env (entry ''a.webp'' 4000 51300) \<and>
   filename (entry ''a.jpg'' 51200 0) \<noteq> filename (entry ''a.webp'' 4000 51300) \<and>
   map fst (out_zip (process_entries demo_env
              [entry ''a.jpg'' 51200 0, entry ''a.webp'' 4000 51300] init_state)) =
     [''a.png'', ''a.png'']"
proof -
  have first: "processed_ok demo_env (entry ''a.jpg'' 51200 0)"
    by (simp add: demo_simps)
  have second: "processed_ok demo_env (entry ''a.webp'' 4000 51300)"
    by (simp add: demo_simps)
  have base1: "fst (splitext (filename (entry ''a.jpg'' 51200 0))) = ''a''"
    by (simp add: demo_simps)
  have base2: "fst (splitext (filename (entry ''a.webp'' 4000 51300))) = ''a''"
    by (simp add: demo_simps)
  have names: "filename (entry ''a.jpg'' 51200 0) \<noteq> filename (entry ''a.webp'' 4000 51300)"
    by (simp add: entry_def)
  from output_names_not_deduplicated [OF first second] base1 base2
  have "map fst (out_zip (process_entries demo_env
              [entry ''a.jpg'' 51200 0, entry ''a.webp'' 4000 51300] init_state)) =
     [''a.png'', ''a.png'']"
    by simp
  with first second names show ?thesis by simp
qed

subsection \<open>The order of the validation\<close>

text \<open>
  Claim C3, as stated, fails: the upload \<^verbatim>\<open>future.zip\<close> has a file, a name ending in
  \<^verbatim>\<open>.zip\<close> and contents that are not empty, and its container is malformed:
  \<^verbatim>\<open>zipfile.ZipFile\<close> raises on it, a \<^verbatim>\<open>NotImplementedError\<close>. That is not a
  \<^verbatim>\<open>BadZipFile\<close>, so the handler of line 147 answers, with status 500.
\<close>

theorem malformed_container_not_always_400:
  "\<not> no_file (upload ''future.zip'' unsupported_zip) \<and>
   \<not> not_zip_name (upload ''future.zip'' unsupported_zip) \<and>
   \<not> empty_body (upload ''future.zip'' unsupported_zip) \<and>
   malformed_zip demo_env (upload ''future.zip'' unsupported_zip) \<and>
   remove_bg_zip demo_env (upload ''future.zip'' unsupported_zip) =
     Inl (HTTPException 500 ''Error processing file: zip file version 6.4'')"
  by (simp add: no_file_def not_zip_name_def empty_body_def malformed_zip_def zip_error_def
      upload_def endswith_def lower_def lower_char_def handler_defs demo_env_def
      unsupported_zip_def)

text \<open>
  Claim C3, amended. The checks are made in the order no file, name without \<^verbatim>\<open>.zip\<close>,
  empty contents, contents on which \<^verbatim>\<open>zipfile.ZipFile\<close> raises \<^verbatim>\<open>BadZipFile\<close>. Each
  ends the request with status 400 and a message of its own, and a request is answered
  with the message of the first check it fails, whatever the later checks would say.
  Contents on which \<^verbatim>\<open>zipfile.ZipFile\<close> raises any other exception pass the first three
  checks and end the request with status 500 and the text of that exception.
\<close>

theorem validation_order:
  "(no_file file_opt \<longrightarrow>
      remove_bg_zip env file_opt = Inl (HTTPException 400 ''No file provided'')) \<and>
   (\<not> no_file file_opt \<and> not_zip_name file_opt \<longrightarrow>
      remove_bg_zip env file_opt = Inl (HTTPException 400 ''File must be a ZIP file'')) \<and>
   (\<not> no_file file_opt \<and> \<not> not_zip_name file_opt \<and> empty_body file_opt \<longrightarrow>
      remove_bg_zip env file_opt = Inl (HTTPException 400 ''The uploaded file is empty'')) \<and>
   (\<forall>e. \<not> no_file file_opt \<and> \<not> not_zip_name file_opt \<and> \<not> empty_body file_opt \<and>
      zip_error env file_opt = Some e \<and> is_BadZipFile e \<longrightarrow>
      remove_bg_zip env file_opt = Inl (HTTPException 400 ''Invalid ZIP file format'')) \<and>
   (\<forall>e. \<not> no_file file_opt \<and> \<not> not_zip_name file_opt \<and> \<not> empty_body file_opt \<and>
      zip_error env file_opt = Some e \<and> \<not> is_BadZipFile e \<longrightarrow>
      remove_bg_zip env file_opt =
        Inl (HTTPException 500 (''Error processing file: '' @ exc_str env e))) \<and>
   distinct [''No file provided'', ''File must be a ZIP file'', ''The uploaded file is empty'',
     ''Invalid ZIP file format'']"
proof -
  have first: "no_file file_opt \<Longrightarrow>
      remove_bg_zip env file_opt = Inl (HTTPException 400 ''No file provided'')"
    by (auto simp: no_file_def remove_bg_zip_def split: option.splits)
  have second: "\<not> no_file file_opt \<Longrightarrow> not_zip_name file_opt \<Longrightarrow>
      remove_bg_zip env file_opt = Inl (HTTPException 400 ''File must be a ZIP file'')"
    by (auto simp: no_file_def not_zip_name_def remove_bg_zip_def split: option.splits)
  have third: "\<not> no_file file_opt \<Longrightarrow> \<not> not_zip_name file_opt \<Longrightarrow> empty_body file_opt \<Longrightarrow>
      remove_bg_zip env file_opt = Inl (HTTPException 400 ''The uploaded file is empty'')"
    by (auto simp: no_file_def not_zip_name_def empty_body_def remove_bg_zip_def outer_try_def
        outer_body_def split: option.splits)
  have fourth: "\<not> no_file file_opt \<Longrightarrow> \<not> not_zip_name file_opt \<Longrightarrow> \<not> empty_body file_opt \<Longrightarrow>
      zip_error env file_opt = Some e \<Longrightarrow> is_BadZipFile e \<Longrightarrow>
      remove_bg_zip env file_opt = Inl (HTTPException 400 ''Invalid ZIP file format'')" for e
    by (auto simp: no_file_def not_zip_name_def empty_body_def zip_error_def is_BadZipFile_def
        handler_defs split: option.splits sum.splits exn.splits)
  have fifth: "\<not> no_file file_opt \<Longrightarrow> \<not> not_zip_name file_opt \<Longrightarrow> \<not> empty_body file_opt \<Longrightarrow>
      zip_error env file_opt = Some e \<Longrightarrow> \<not> is_BadZipFile e \<Longrightarrow>
      remove_bg_zip env file_opt =
        Inl (HTTPException 500 (''Error processing file: '' @ exc_str env e))" for e
    by (auto simp: no_file_def not_zip_name_def empty_body_def zip_error_def is_BadZipFile_def
        handler_defs split: option.splits sum.splits exn.splits)
  have messages: "distinct [''No file provided'', ''File must be a ZIP file'',
     ''The uploaded file is empty'', ''Invalid ZIP file format'']"
    by simp
  from first second third fourth fifth messages show ?thesis by blast
qed

theorem validation_order_witness:
  "no_file (upload [] []) \<and> not_zip_name (upload [] []) \<and> empty_body (upload [] []) \<and>
   malformed_zip demo_env (upload [] []) \<and>
   remove_bg_zip demo_env (upload [] []) = Inl (HTTPException 400 ''No file provided'') \<and>
   remove_bg_zip demo_env None = Inl (HTTPException 400 ''No file provided'') \<and>
   not_zip_name (upload ''notes.txt'' []) \<and> empty_body (upload ''notes.txt'' []) \<and>
   malformed_zip demo_env (upload ''notes.txt'' []) \<and>
   remove_bg_zip demo_env (upload ''notes.txt'' []) =
     Inl (HTTPException 400 ''File must be a ZIP file'') \<and>
   empty_body (upload ''empty.zip'' []) \<and> malformed_zip demo_env (upload ''empty.zip'' []) \<and>
   remove_bg_zip demo_env (upload ''empty.zip'' []) =
     Inl (HTTPException 400 ''The uploaded file is empty'') \<and>
   zip_error demo_env (upload ''Broken.ZIP'' [7, 7]) = Some (BadZipFile ''File is not a zip file'') \<and>
   remove_bg_zip demo_env (upload ''Broken.ZIP'' [7, 7]) =
     Inl (HTTPException 400 ''Invalid ZIP file format'') \<and>
   zip_error demo_env (upload ''future.zip'' unsupported_zip) =
     Some (Exception ''zip file version 6.4'') \<and>
   remove_bg_zip demo_env (upload ''future.zip'' unsupported_zip) =
     Inl (HTTPException 500 ''Error processing file: zip file version 6.4'')"
proof -
  note check_defs = no_file_def not_zip_name_def empty_body_def malformed_zip_def zip_error_def
    is_BadZipFile_def upload_def demo_env_def endswith_def lower_def lower_char_def
  have one: "no_file (upload [] [])" "not_zip_name (upload [] [])" "empty_body (upload [] [])"
    "malformed_zip demo_env (upload [] [])" "no_file None"
    by (simp_all add: check_defs)
  have two: "\<not> no_file (upload ''notes.txt'' [])" "not_zip_name (upload ''notes.txt'' [])"
    "empty_body (upload ''notes.txt'' [])" "malformed_zip demo_env (upload ''notes.txt'' [])"
    by (simp_all add: check_defs)
  have three: "\<not> no_file (upload ''empty.zip'' [])" "\<not> not_zip_name (upload ''empty.zip'' [])"
    "empty_body (upload ''empty.zip'' [])" "malformed_zip demo_env (upload ''empty.zip'' [])"
    by (simp_all add: check_defs)
  have four: "\<not> no_file (upload ''Broken.ZIP'' [7, 7])" "\<not> not_zip_name (upload ''Broken.ZIP'' [7, 7])"
    "\<not> empty_body (upload ''Broken.ZIP'' [7, 7])"
    "zip_error demo_env (upload ''Broken.ZIP'' [7, 7]) = Some (BadZipFile ''File is not a zip file'')"
    "is_BadZipFile (BadZipFile ''File is not a zip file'')"
    by (simp_all add: check_defs unsupported_zip_def)
  have five: "\<not> no_file (upload ''future.zip'' unsupported_zip)"
    "\<not> not_zip_name (upload ''future.zip'' unsupported_zip)"
    "\<not> empty_body (upload ''future.zip'' unsupported_zip)"
    "zip_error demo_env (upload ''future.zip'' unsupported_zip) =
       Some (Exception ''zip file version 6.4'')"
    "\<not> is_BadZipFile (Exception ''zip file version 6.4'')"
    by (simp_all add: check_defs unsupported_zip_def)
  have rendered: "exc_str demo_env (Exception ''zip file version 6.4'') = ''zip file version 6.4''"
    by (simp add: demo_env_def)
  from validation_order [of "upload [] []" demo_env] validation_order [of None demo_env]
    validation_order [of "upload ''notes.txt'' []" demo_env]
    validation_order [of "upload ''empty.zip'' []" demo_env]
    validation_order [of "upload ''Broken.ZIP'' [7, 7]" demo_env]
    validation_order [of "upload ''future.zip'' unsupported_zip" demo_env]
    one two three four five rendered
  show ?thesis by simp
qed

subsection \<open>The response\<close>

text \<open>
  Claim C8. A request that succeeds is a request with a file and a file name, whose
  contents parse as an archive, and its response has status 200, the bytes of the
  output archive as its body, the media type \<^verbatim>\<open>application/zip\<close>, and two headers:
  \<^verbatim>\<open>Content-Disposition\<close> with \<^verbatim>\<open>processed_\<close> before the base name of the uploaded
  file's name, and \<^verbatim>\<open>Content-Length\<close> with the length of the body in decimal digits.
\<close>

theorem success_response:
  assumes "remove_bg_zip env file_opt = Inr r"
  shows "\<exists>file name contents infolist.
           file_opt = Some file \<and> file_filename file = Some name \<and>
           file_read file = Inr contents \<and> ZipFile env contents = Inr infolist \<and>
           status_code r = 200 \<and>
           body r = zip_bytes env (out_zip (process_entries env infolist init_state)) \<and>
           headers r =
             [(''Content-Disposition'', ''attachment; filename=processed_'' @ basename name),
              (''Content-Length'', py_str (length (body r)))] \<and>
           media_type r = ''application/zip''"
  using assms
  by (auto simp: handler_defs make_response_def Let_def
      split: option.splits sum.splits exn.splits if_splits)

theorem success_response_witness:
  "remove_bg_zip demo_env (upload ''uploads/photos.zip'' [2]) =
     Inr \<lparr>status_code = 200, media_type = ''application/zip'',
          headers = [(''Content-Disposition'', ''attachment; filename=processed_photos.zip''),
                     (''Content-Length'', ''4'')],
          body = [137, 80, 78, 71]\<rparr>"
proof -
  have ok: "processed_ok demo_env (entry ''a.jpg'' 51200 0)"
    "\<not> processed_ok demo_env (entry ''notes.txt'' 10 51300)"
    by (simp_all add: demo_simps)
  have archive: "ZipFile demo_env [2] = Inr [entry ''a.jpg'' 51200 0, entry ''notes.txt'' 10 51300]"
    by (simp add: demo_env_def)
  have result: "\<exists>r. remove_bg_zip demo_env (upload ''uploads/photos.zip'' [2]) = Inr r"
    using ok
    by (simp add: handler_defs upload_def endswith_def lower_def lower_char_def entry_count
        init_state_def archive)
  then obtain r where r: "remove_bg_zip demo_env (upload ''uploads/photos.zip'' [2]) = Inr r"
    by blast
  have loop: "out_zip (process_entries demo_env
                [entry ''a.jpg'' 51200 0, entry ''notes.txt'' 10 51300] init_state) =
              [(''a.png'', [137, 80, 78, 71])]"
    by (simp add: demo_simps loop_defs)
  have len: "py_str (length [137, 80, 78, 71 :: 8 word]) = ''4''"
    by (simp add: py_str.simps digit_char_def)
  have base: "basename ''uploads/photos.zip'' = ''photos.zip''"
    by (simp add: basename_def rfind_def)
  have bytes: "zip_bytes demo_env [(''a.png'', [137, 80, 78, 71])] = [137, 80, 78, 71]"
    by (simp add: demo_env_def)
  from success_response [OF r] archive loop len base bytes
  have "r = \<lparr>status_code = 200, media_type = ''application/zip'',
          headers = [(''Content-Disposition'', ''attachment; filename=processed_photos.zip''),
                     (''Content-Length'', ''4'')],
          body = [137, 80, 78, 71]\<rparr>"
    by (cases r) (auto simp: upload_def)
  with r show ?thesis by simp
qed

subsection \<open>Archives without a processed image\<close>

text \<open>
  Claim C1, on the code. The upload \<^verbatim>\<open>data.zip\<close> holds the single entry
  \<^verbatim>\<open>corrupt.png\<close>, which does not decode and is passed through, so the counter ends at
  0. Line 126 raises an \<^verbatim>\<open>HTTPException\<close> of status 400 inside the inner \<^verbatim>\<open>try\<close>,
  line 147 catches it, and the request ends with status 500.
\<close>

theorem corrupt_only_archive_gives_500:
  "remove_bg_zip demo_env (upload ''data.zip'' [1]) =
     Inl (HTTPException 500 ''Error processing file: 400: No valid images found in the ZIP file'')"
proof -
  let ?file = "\<lparr>file_filename = Some ''data.zip'', file_read = Inr [1]\<rparr>"
  have name: "file_filename ?file = Some ''data.zip''" "''data.zip'' \<noteq> []"
    "endswith (lower ''data.zip'') ''.zip''"
    by (simp_all add: endswith_def lower_def lower_char_def)
  have contents: "file_read ?file = Inr [1]" "[1 :: 8 word] \<noteq> []"
    by simp_all
  have archive: "ZipFile demo_env [1] = Inr [entry ''corrupt.png'' 120 0]"
    "[entry ''corrupt.png'' 120 0] \<noteq> []"
    by (simp_all add: demo_env_def)
  have "\<not> processed_ok demo_env (entry ''corrupt.png'' 120 0)"
    by (simp add: demo_simps)
  then have count:
    "processed_files (process_entries demo_env [entry ''corrupt.png'' 120 0] init_state) = 0"
    by (simp add: entry_count init_state_def)
  from zero_processed_raises_500 [OF name contents archive count]
  show ?thesis
    by (simp add: upload_def demo_env_def py_str_400)
qed

text \<open>
  Claim C2, on the code. The upload \<^verbatim>\<open>empty.zip\<close> is the 22 bytes of an archive without
  entries. Line 88 raises an \<^verbatim>\<open>HTTPException\<close> of status 400 inside the inner
  \<^verbatim>\<open>try\<close>, line 147 catches it, and the request ends with status 500.
\<close>

theorem empty_archive_gives_500:
  "remove_bg_zip demo_env (upload ''empty.zip'' ([80, 75, 5, 6] @ replicate 18 0)) =
     Inl (HTTPException 500 ''Error processing file: 400: ZIP file is empty'')"
proof -
  let ?file = "\<lparr>file_filename = Some ''empty.zip'',
                 file_read = Inr ([80, 75, 5, 6] @ replicate 18 0)\<rparr>"
  have name: "file_filename ?file = Some ''empty.zip''" "''empty.zip'' \<noteq> []"
    "endswith (lower ''empty.zip'') ''.zip''"
    by (simp_all add: endswith_def lower_def lower_char_def)
  have contents: "file_read ?file = Inr ([80, 75, 5, 6] @ replicate 18 0)"
    "[80, 75, 5, 6] @ replicate 18 (0 :: 8 word) \<noteq> []"
    by simp_all
  have archive: "ZipFile demo_env ([80, 75, 5, 6] @ replicate 18 0) = Inr []"
    by (simp add: demo_env_def)
  from empty_archive_raises_500 [OF name contents archive]
  show ?thesis
    by (simp add: upload_def demo_env_def py_str_400)
qed

subsection \<open>Further properties of the loop and of the handler\<close>

lemma candidate_effect:
  "\<exists>new. out_zip (process_candidate env file_info s) = out_zip s @ new \<and>
         processed_files s \<le> processed_files (process_candidate env file_info s) \<and>
         processed_files (process_candidate env file_info s) \<le> processed_files s + length new \<and>
         length new \<le> 1"
  by (auto simp: loop_defs Let_def split: sum.splits)

lemma entry_effect:
  "\<exists>new. out_zip (process_entry env file_info s) = out_zip s @ new \<and>
         processed_files s \<le> processed_files (process_entry env file_info s) \<and>
         processed_files (process_entry env file_info s) \<le> processed_files s + length new \<and>
         length new \<le> 1"
  using candidate_effect [of env file_info s] by (simp add: process_entry_def Let_def)

lemma loop_effect:
  "\<exists>new. out_zip (process_entries env infolist s) = out_zip s @ new \<and>
         processed_files s \<le> processed_files (process_entries env infolist s) \<and>
         processed_files (process_entries env infolist s) \<le> processed_files s + length new \<and>
         length new \<le> length infolist"
proof (induction infolist arbitrary: s)
  case Nil
  show ?case by simp
next
  case (Cons file_info rest)
  from entry_effect [of env file_info s] obtain new1 where one:
    "out_zip (process_entry env file_info s) = out_zip s @ new1"
    "processed_files s \<le> processed_files (process_entry env file_info s)"
    "processed_files (process_entry env file_info s) \<le> processed_files s + length new1"
    "length new1 \<le> 1"
    by blast
  from Cons.IH [of "process_entry env file_info s"] obtain new2 where two:
    "out_zip (process_entries env rest (process_entry env file_info s)) =
       out_zip (process_entry env file_info s) @ new2"
    "processed_files (process_entry env file_info s) \<le>
       processed_files (process_entries env rest (process_entry env file_info s))"
    "processed_files (process_entries env rest (process_entry env file_info s)) \<le>
       processed_files (process_entry env file_info s) + length new2"
    "length new2 \<le> length rest"
    by blast
  show ?case
    by (rule exI [of _ "new1 @ new2"]) (use one two in simp)
qed

text \<open>
  The loop writes at most one entry for each entry of the archive, and every entry it
  counts is an entry it wrote.
\<close>

theorem loop_output_bounds:
  "length (out_zip (process_entries env infolist init_state)) \<le> length infolist \<and>
   processed_files (process_entries env infolist init_state) \<le>
     length (out_zip (process_entries env infolist init_state))"
  using loop_effect [of env infolist init_state] by (auto simp: init_state_def)

text \<open>
  The archive of a response is never without entries: a request that succeeds has an
  archive of which at least one entry was processed successfully, and the output holds
  at least one entry.
\<close>

theorem success_has_entries:
  assumes "remove_bg_zip env file_opt = Inr r"
  shows "\<exists>file contents infolist.
           file_opt = Some file \<and> file_read file = Inr contents \<and>
           ZipFile env contents = Inr infolist \<and>
           out_zip (process_entries env infolist init_state) \<noteq> [] \<and>
           0 < length (filter (processed_ok env) infolist)"
proof -
  from assms obtain upl contents infolist where facts:
    "file_opt = Some upl" "file_read upl = Inr contents" "ZipFile env contents = Inr infolist"
    "processed_files (process_entries env infolist init_state) \<noteq> 0"
    by (auto simp: handler_defs Let_def split: option.splits sum.splits exn.splits if_splits)
  from loop_effect [of env infolist init_state] facts(4)
  have "out_zip (process_entries env infolist init_state) \<noteq> []"
    by (auto simp: init_state_def)
  moreover from facts(4) have "0 < length (filter (processed_ok env) infolist)"
    by (simp add: entries_count init_state_def)
  ultimately show ?thesis using facts by blast
qed

theorem success_has_entries_witness:
  "(\<exists>r. remove_bg_zip demo_env (upload ''photos.zip'' [2]) = Inr r) \<and>
   (\<exists>file contents infolist.
      upload ''photos.zip'' [2] = Some file \<and> file_read file = Inr contents \<and>
      ZipFile demo_env contents = Inr infolist \<and>
      out_zip (process_entries demo_env infolist init_state) \<noteq> [] \<and>
      0 < length (filter (processed_ok demo_env) infolist))"
proof -
  have ok: "processed_ok demo_env (entry ''a.jpg'' 51200 0)"
    by (simp add: demo_simps)
  have archive: "ZipFile demo_env [2] = Inr [entry ''a.jpg'' 51200 0, entry ''notes.txt'' 10 51300]"
    by (simp add: demo_env_def)
  have "\<exists>r. remove_bg_zip demo_env (upload ''photos.zip'' [2]) = Inr r"
    using ok
    by (simp add: handler_defs upload_def endswith_def lower_def lower_char_def entry_count
        init_state_def archive)
  then obtain r where r: "remove_bg_zip demo_env (upload ''photos.zip'' [2]) = Inr r"
    by blast
  from success_has_entries [OF r] r show ?thesis by blast
qed

text \<open>
  Every exception that leaves the handler is an \<^verbatim>\<open>HTTPException\<close>: the handlers of
  lines 143 to 155 turn every other exception into one.
\<close>

theorem failures_are_http_exceptions:
  "remove_bg_zip env file_opt = Inl e \<Longrightarrow> \<exists>code detail. e = HTTPException code detail"
  by (auto simp: handler_defs Let_def split: option.splits sum.splits exn.splits if_splits)

theorem failures_are_http_exceptions_witness:
  "remove_bg_zip demo_env (upload ''photos.txt'' [2]) =
     Inl (HTTPException 400 ''File must be a ZIP file'') \<and>
   (\<exists>code detail. HTTPException 400 ''File must be a ZIP file'' = HTTPException code detail)"
proof -
  have raised: "remove_bg_zip demo_env (upload ''photos.txt'' [2]) =
     Inl (HTTPException 400 ''File must be a ZIP file'')"
    by (simp add: remove_bg_zip_def upload_def endswith_def lower_def lower_char_def)
  from failures_are_http_exceptions [OF raised] raised show ?thesis by simp
qed

text \<open>
  An exception of \<^verbatim>\<open>file.read()\<close> that is not an \<^verbatim>\<open>HTTPException\<close> ends the request
  with status 500 and the message of line 155.
\<close>

theorem read_failure_gives_500:
  assumes "file_filename file = Some name" and "name \<noteq> []"
    and "endswith (lower name) ''.zip''" and "file_read file = Inl (Exception m)"
  shows "remove_bg_zip env (Some file) = Inl (HTTPException 500 ''An unexpected error occurred'')"
  using assms by (simp add: handler_defs)

theorem read_failure_gives_500_witness:
  "remove_bg_zip demo_env
     (Some \<lparr>file_filename = Some ''photos.zip'', file_read = Inl (Exception ''connection lost'')\<rparr>) =
     Inl (HTTPException 500 ''An unexpected error occurred'')"
proof -
  have name: "endswith (lower ''photos.zip'') ''.zip''"
    by (simp add: endswith_def lower_def lower_char_def)
  show ?thesis
    by (rule read_failure_gives_500 [where name = "''photos.zip''" and m = "''connection lost''"])
      (simp_all add: name)
qed

end
